theory Spec2Isabelle
  imports Main
begin

section \<open>JavaScript values and object literals\<close>

text \<open>
  The file \<^verbatim>\<open>packages/config/src/layer2s/zora.ts\<close> builds one object literal. Its values
  are modelled by a small datatype of JavaScript values. Every number written in the
  file is an integer, so numbers are \<^typ>\<open>int\<close>. An object is the list of its
  properties in insertion order. A function value is known by its name only: the file
  passes one on (\<^verbatim>\<open>assessCount: subtractOne\<close>) and calls none that it holds as a value.
\<close>

datatype jv =
    Null
  | Bool bool
  | Num int
  | Str string
  | Arr "jv list"
  | Obj "(string \<times> jv) list"
  | Fn string

type_synonym obj = "(string \<times> jv) list"

text \<open>
  Assigning a property: a key that is already there keeps its place and takes the new
  value, a new key goes to the end.
\<close>

fun setProp :: "string \<Rightarrow> jv \<Rightarrow> obj \<Rightarrow> obj" where
  "setProp k v [] = [(k, v)]"
| "setProp k v ((k', v') # ps) =
     (if k' = k then (k, v) # ps else (k', v') # setProp k v ps)"

text \<open>
  An object literal \<^verbatim>\<open>{ a: x, ...s, b: y }\<close> is evaluated left to right: \<^verbatim>\<open>a: x\<close>
  assigns one property, \<^verbatim>\<open>...s\<close> assigns every own property of \<^verbatim>\<open>s\<close> in order.
\<close>

datatype entry = Field string jv | Spread obj

fun addEntry :: "obj \<Rightarrow> entry \<Rightarrow> obj" where
  "addEntry ps (Field k v) = setProp k v ps"
| "addEntry ps (Spread qs) = foldl (\<lambda>acc (k, v). setProp k v acc) ps qs"

definition objLit :: "entry list \<Rightarrow> jv" where
  "objLit es = Obj (foldl addEntry [] es)"

text \<open>Reading a property; \<^verbatim>\<open>undefined\<close> is \<^term>\<open>None\<close>.\<close>

fun getProp :: "jv \<Rightarrow> string \<Rightarrow> jv option" where
  "getProp (Obj ps) k = map_of ps k"
| "getProp _ k = None"

fun hasOwn :: "jv \<Rightarrow> string \<Rightarrow> bool" where
  "hasOwn v k = (getProp v k \<noteq> None)"

section \<open>What the file imports\<close>

text \<open>
  \<^verbatim>\<open>zora.ts\<close> imports its tables and helpers from modules that are not part of the
  source at hand. A table entry or a helper that the file only reads or calls is a field
  of the record \<open>env\<close>, under the name it has in the file (with the name of its table in
  front); nothing is assumed about it. A table entry that the file spreads into a literal
  is an object, one that it calls is a function, any other is a value. The methods of
  \<^verbatim>\<open>ProjectDiscovery\<close> that build permissions and contract details may fail. The
  record also holds what the spec leaves open in the helpers modelled below: the
  discovery \<open>snapshot\<close>, the tests for a well-formed address and timestamp, and the
  fields that the stage classifier requires for certainty.
\<close>

text \<open>Modelled from the spec: the error taxonomy of section 7; the source raises none itself.\<close>

datatype error =
    UnknownKey
  | MissingField string string
  | UnknownRole
  | InvalidAddress
  | InvalidTimestamp
  | SchemaViolation
  | DuplicateId
  | NotFound

record env =
  snapshot :: "string \<times> string \<Rightarrow> jv option"
  wellFormedAddress :: "jv \<Rightarrow> bool"
  wellFormedTimestamp :: "jv \<Rightarrow> bool"
  getMultisigPermission :: "string \<Rightarrow> string \<Rightarrow> error + jv list"
  getOpStackPermissions :: "jv \<Rightarrow> error + jv list"
  getOpStackContractDetails :: "jv \<Rightarrow> error + jv list"
  getContractDetails :: "string \<Rightarrow> jv \<Rightarrow> error + jv"
  requiredForCertainty :: "string \<Rightarrow> bool"
  formatSeconds :: "jv \<Rightarrow> string"
  subtractOne :: jv
  makeBridgeCompatible :: "jv \<Rightarrow> jv"
  HARDCODED_OPTIMISM_SEQUENCING_WINDOW_SECONDS :: jv
  OPTIMISTIC_ROLLUP_STATE_UPDATES_WARNING :: jv
  RISK_VIEW_STATE_NONE :: jv
  RISK_VIEW_DATA_ON_CHAIN :: obj
  RISK_VIEW_EXIT_WINDOW :: "jv \<Rightarrow> jv \<Rightarrow> obj"
  RISK_VIEW_SEQUENCER_SELF_SEQUENCE :: "jv \<Rightarrow> obj"
  RISK_VIEW_PROPOSER_CANNOT_WITHDRAW :: obj
  RISK_VIEW_NATIVE_AND_CANONICAL :: jv
  RISK_VIEW_VALIDATED_BY_ETHEREUM :: jv
  DERIVATION_OPSTACK :: "string \<Rightarrow> jv"
  DATA_AVAILABILITY_ON_CHAIN_CANONICAL :: obj
  OPERATOR_CENTRALIZED_OPERATOR :: obj
  FORCE_TRANSACTIONS_CANONICAL_ORDERING :: obj
  EXITS_REGULAR :: "string \<Rightarrow> string \<Rightarrow> obj"
  EXITS_FORCED :: "string \<Rightarrow> obj"
  EXITS_RISK_CENTRALIZED_VALIDATOR :: jv
  CONTRACTS_UPGRADE_NO_DELAY_RISK :: jv
  NUGGETS_THUMBNAILS_L2BEAT_03 :: jv
  NUGGETS_THUMBNAILS_OPTIMISM_04 :: jv
  NUGGETS_THUMBNAILS_MODULAR_ROLLUP :: jv

text \<open>
  The constructors \<^verbatim>\<open>EthereumAddress\<close>, \<^verbatim>\<open>ProjectId\<close> and \<^verbatim>\<open>UnixTime\<close> of
  \<^verbatim>\<open>@l2beat/shared-pure\<close> are not in the source either. Here they brand a string or a
  number and test nothing: the spec places the test of addresses and timestamps in
  \<^verbatim>\<open>getEscrowDetails\<close>.
\<close>

definition EthereumAddress :: "string \<Rightarrow> jv" where
  "EthereumAddress s = Str s"

definition ProjectId :: "string \<Rightarrow> jv" where
  "ProjectId s = Str s"

definition UnixTime :: "int \<Rightarrow> jv" where
  "UnixTime n = Num n"

text \<open>An exception ends the evaluation of the module: the first error is the result.\<close>

definition bindE :: "error + 'a \<Rightarrow> ('a \<Rightarrow> error + 'b) \<Rightarrow> error + 'b" where
  "bindE m f = (case m of Inl e \<Rightarrow> Inl e | Inr x \<Rightarrow> f x)"

section \<open>The discovery accessor\<close>

text \<open>
  Modelled from the spec: \<^verbatim>\<open>ProjectDiscovery.getContractValue\<close> is not in the source.
  Section 4.2 of the spec: it returns the value that the discovery snapshot holds for the
  contract and the field, and fails with \<open>MissingField\<close> if the snapshot lacks them.
  Section 6: the snapshot is a mapping from (contract name, field name) to values.
\<close>

definition getContractValue :: "env \<Rightarrow> string \<Rightarrow> string \<Rightarrow> error + jv" where
  "getContractValue e contractName fieldName =
     (case snapshot e (contractName, fieldName) of
        None \<Rightarrow> Inl (MissingField contractName fieldName)
      | Some v \<Rightarrow> Inr v)"

text \<open>
  Modelled from the spec: \<^verbatim>\<open>ProjectDiscovery.getEscrowDetails\<close> is not in the source.
  Section 4.2 of the spec: a pure validation of the caller's parameters (address,
  timestamp, token set, description, upgrade metadata), which fails with
  \<open>InvalidAddress\<close> or \<open>InvalidTimestamp\<close> on malformed input. The spec does not say
  what makes an address or a timestamp malformed, so both tests come from \<open>env\<close>; the
  \<open>EscrowConfig\<close> returned holds the caller's parameters as they were given.
\<close>

definition getEscrowDetails :: "env \<Rightarrow> jv \<Rightarrow> error + jv" where
  "getEscrowDetails e params =
     (case getProp params ''address'' of
        None \<Rightarrow> Inl InvalidAddress
      | Some a \<Rightarrow>
          if \<not> wellFormedAddress e a then Inl InvalidAddress
          else (case getProp params ''sinceTimestamp'' of
                  None \<Rightarrow> Inl InvalidTimestamp
                | Some t \<Rightarrow>
                    if \<not> wellFormedTimestamp e t then Inl InvalidTimestamp
                    else Inr params))"

section \<open>The stage classifier\<close>

text \<open>
  Modelled from the spec: \<^verbatim>\<open>getStage\<close> (\<^verbatim>\<open>./common/stages/getStage\<close>) is not in the
  source. Section 4.3 of the spec: the criteria are three tiers of fields, each field a
  boolean or null; a record satisfies stage N only if every non-null field at every tier
  up to N is true; the result is the highest tier fully satisfied, clamped to an
  under-review state if stage1 or stage2 hold a null in a field that the classifier deems
  required for certainty. Which fields those are is policy that the spec leaves open, so
  the policy is the parameter \<open>req\<close>. The spec names no result for criteria that do not
  satisfy stage 0; the model returns \<open>NoStage\<close> there. The context takes no part in
  the algorithm.
\<close>

type_synonym tierFields = "(string \<times> bool option) list"

record criteria =
  stage0 :: tierFields
  stage1 :: tierFields
  stage2 :: tierFields

datatype StageResult = UnderReview | NoStage | Stage nat

fun fieldOk :: "string \<times> bool option \<Rightarrow> bool" where
  "fieldOk (k, None) = True"
| "fieldOk (k, Some b) = b"

definition tierSatisfied :: "tierFields \<Rightarrow> bool" where
  "tierSatisfied fs = list_all fieldOk fs"

definition satisfies :: "criteria \<Rightarrow> nat \<Rightarrow> bool" where
  "satisfies c n =
     (n \<le> 2 \<and> list_all tierSatisfied (take (Suc n) [stage0 c, stage1 c, stage2 c]))"

definition highestTier :: "criteria \<Rightarrow> StageResult" where
  "highestTier c =
     (if satisfies c 2 then Stage 2
      else if satisfies c 1 then Stage 1
      else if satisfies c 0 then Stage 0
      else NoStage)"

fun nullAndRequired :: "(string \<Rightarrow> bool) \<Rightarrow> string \<times> bool option \<Rightarrow> bool" where
  "nullAndRequired req (k, None) = req k"
| "nullAndRequired req (k, Some b) = False"

definition needsReview :: "(string \<Rightarrow> bool) \<Rightarrow> criteria \<Rightarrow> bool" where
  "needsReview req c = list_ex (nullAndRequired req) (stage1 c @ stage2 c)"

definition getStage :: "(string \<Rightarrow> bool) \<Rightarrow> criteria \<Rightarrow> jv \<Rightarrow> StageResult" where
  "getStage req c ctx = (if needsReview req c then UnderReview else highestTier c)"

section \<open>The module \<^verbatim>\<open>zora.ts\<close>\<close>

subsection \<open>Top-level constants\<close>

definition FINALIZATION_PERIOD_SECONDS :: "env \<Rightarrow> error + jv" where
  "FINALIZATION_PERIOD_SECONDS e =
     getContractValue e ''L2OutputOracle'' ''FINALIZATION_PERIOD_SECONDS''"

definition upgradesProxy :: obj where
  "upgradesProxy =
     [(''upgradableBy'', Arr [Str ''ProxyAdmin'']),
      (''upgradeDelay'', Str ''No delay'')]"

definition challengePeriod :: "env \<Rightarrow> error + jv" where
  "challengePeriod e =
     getContractValue e ''L2OutputOracle'' ''FINALIZATION_PERIOD_SECONDS''"

definition upgradeDelay :: jv where
  "upgradeDelay = Num 0"

subsection \<open>\<^verbatim>\<open>display\<close>\<close>

text \<open>The template literal of \<^verbatim>\<open>display.liveness.explanation\<close>; \<open>fps\<close> is the value of
  \<^verbatim>\<open>FINALIZATION_PERIOD_SECONDS\<close>.\<close>

definition explanation :: "env \<Rightarrow> jv \<Rightarrow> string" where
  "explanation e fps =
     ''Zora is an Optimistic rollup that posts transaction data to the L1. For a transaction to be considered final, it has to be posted within a tx batch on L1 that links to a previous finalized batch. If the previous batch is missing, transaction finalization can be delayed up to ''
     @ formatSeconds e (HARDCODED_OPTIMISM_SEQUENCING_WINDOW_SECONDS e)
     @ '' or until it gets published. The state root gets finalized ''
     @ formatSeconds e fps
     @ '' after it has been posted.''"

definition display :: "env \<Rightarrow> jv \<Rightarrow> jv" where
  "display e fps = objLit
     [Field ''name'' (Str ''Zora''),
      Field ''slug'' (Str ''zora''),
      Field ''warning'' (Str ''Fraud proof system is currently under development. Users need to trust the block proposer to submit correct L1 state roots.''),
      Field ''description'' (Str ''Zora is a fast, cost-efficient, and scalable Layer 2 built to help bring media onchain, powered by the OP Stack.''),
      Field ''purpose'' (Str ''Universal, NFTs''),
      Field ''provider'' (Str ''OP Stack''),
      Field ''category'' (Str ''Optimistic Rollup''),
      Field ''dataAvailabilityMode'' (Str ''TxData''),
      Field ''links'' (objLit
        [Field ''websites'' (Arr [Str ''https://zora.energy/'', Str ''https://zora.co/'']),
         Field ''apps'' (Arr []),
         Field ''documentation'' (Arr [Str ''https://docs.zora.co/docs/zora-network/intro'']),
         Field ''explorers'' (Arr
           [Str ''https://explorer.zora.energy/'',
            Str ''https://zora.superscan.network'']),
         Field ''repositories'' (Arr [Str ''https://github.com/ourzora/optimism'']),
         Field ''socialMedia'' (Arr
           [Str ''https://twitter.com/ourZORA'',
            Str ''https://instagram.com/our.zora'',
            Str ''https://zora.community''])]),
      Field ''activityDataSource'' (Str ''Blockchain RPC''),
      Field ''liveness'' (objLit
        [Field ''warnings'' (objLit
           [Field ''stateUpdates'' (OPTIMISTIC_ROLLUP_STATE_UPDATES_WARNING e)]),
         Field ''explanation'' (Str (explanation e fps))])]"

subsection \<open>\<^verbatim>\<open>config\<close>\<close>

text \<open>The two objects handed to \<^verbatim>\<open>discovery.getEscrowDetails\<close>, each ending in the spread
  of \<^verbatim>\<open>upgradesProxy\<close>.\<close>

definition ethEscrowParams :: jv where
  "ethEscrowParams = objLit
     [Field ''address'' (EthereumAddress ''0x1a0ad011913A150f69f6A19DF447A0CfD9551054''),
      Field ''sinceTimestamp'' (UnixTime 1686607200),
      Field ''tokens'' (Arr [Str ''ETH'']),
      Field ''description'' (Str ''Main entry point for users depositing ETH.''),
      Spread upgradesProxy]"

definition erc20EscrowParams :: jv where
  "erc20EscrowParams = objLit
     [Field ''address'' (EthereumAddress ''0x3e2Ea9B92B7E48A52296fD261dc26fd995284631''),
      Field ''sinceTimestamp'' (UnixTime 1686607200),
      Field ''tokens'' (Str ''*''),
      Field ''description'' (Str ''Main entry point for users depositing ERC20 token that do not require custom gateway.''),
      Spread upgradesProxy]"

text \<open>\<open>escrows\<close> are the results of the two calls of \<^verbatim>\<open>getEscrowDetails\<close>.\<close>

definition config :: "env \<Rightarrow> jv list \<Rightarrow> jv" where
  "config e escrows = objLit
     [Field ''escrows'' (Arr escrows),
      Field ''transactionApi'' (objLit
        [Field ''type'' (Str ''rpc''),
         Field ''startBlock'' (Num 1),
         Field ''url'' (Str ''https://rpc.zora.co''),
         Field ''callsPerMinute'' (Num 1500),
         Field ''assessCount'' (subtractOne e)]),
      Field ''liveness'' (objLit
        [Field ''proofSubmissions'' (Arr []),
         Field ''batchSubmissions'' (Arr
           [objLit
              [Field ''formula'' (Str ''transfer''),
               Field ''from'' (EthereumAddress ''0x625726c858dBF78c0125436C943Bf4b4bE9d9033''),
               Field ''to'' (EthereumAddress ''0x6F54Ca6F6EdE96662024Ffd61BFd18f3f4e34DFf''),
               Field ''sinceTimestamp'' (UnixTime 1686695915)]]),
         Field ''stateUpdates'' (Arr
           [objLit
              [Field ''formula'' (Str ''functionCall''),
               Field ''address'' (EthereumAddress ''0x9E6204F750cD866b299594e2aC9eA824E2e5f95c''),
               Field ''selector'' (Str ''0x9aaab648''),
               Field ''functionSignature'' (Str ''function proposeL2Output(bytes32 _outputRoot, uint256 _l2BlockNumber, bytes32 _l1Blockhash, uint256 _l1BlockNumber)''),
               Field ''sinceTimestamp'' (UnixTime 1686694007)]])])]"

subsection \<open>\<^verbatim>\<open>riskView\<close>\<close>

text \<open>The object handed to \<^verbatim>\<open>makeBridgeCompatible\<close>; \<open>cp\<close> is the value of
  \<^verbatim>\<open>challengePeriod\<close>.\<close>

definition riskViewEntries :: "env \<Rightarrow> jv \<Rightarrow> jv" where
  "riskViewEntries e cp = objLit
     [Field ''stateValidation'' (RISK_VIEW_STATE_NONE e),
      Field ''dataAvailability'' (objLit
        [Spread (RISK_VIEW_DATA_ON_CHAIN e),
         Field ''sources'' (Arr
           [objLit
              [Field ''contract'' (Str ''OptimismPortal''),
               Field ''references'' (Arr
                 [Str ''https://etherscan.io/address/0x43260ee547c3965bb2a0174763bb8FEcC650BA4A#code#F1#L434''])]])]),
      Field ''exitWindow'' (objLit
        [Spread (RISK_VIEW_EXIT_WINDOW e upgradeDelay cp),
         Field ''sources'' (Arr
           [objLit
              [Field ''contract'' (Str ''OptimismPortal''),
               Field ''references'' (Arr
                 [Str ''https://etherscan.io/address/0x1a0ad011913A150f69f6A19DF447A0CfD9551054''])]])]),
      Field ''sequencerFailure'' (objLit
        [Spread (RISK_VIEW_SEQUENCER_SELF_SEQUENCE e
           (HARDCODED_OPTIMISM_SEQUENCING_WINDOW_SECONDS e)),
         Field ''sources'' (Arr
           [objLit
              [Field ''contract'' (Str ''OptimismPortal''),
               Field ''references'' (Arr
                 [Str ''https://etherscan.io/address/0x43260ee547c3965bb2a0174763bb8FEcC650BA4A#code#F1#L434''])]])]),
      Field ''proposerFailure'' (objLit
        [Spread (RISK_VIEW_PROPOSER_CANNOT_WITHDRAW e),
         Field ''sources'' (Arr
           [objLit
              [Field ''contract'' (Str ''L2OutputOracle''),
               Field ''references'' (Arr
                 [Str ''https://etherscan.io/address/0x9eedde6b4D3263b97209Ba860eDF3Fc6a8fB6a44#code#F1#L186''])]])]),
      Field ''destinationToken'' (RISK_VIEW_NATIVE_AND_CANONICAL e),
      Field ''validatedBy'' (RISK_VIEW_VALIDATED_BY_ETHEREUM e)]"

definition riskView :: "env \<Rightarrow> jv \<Rightarrow> jv" where
  "riskView e cp = makeBridgeCompatible e (riskViewEntries e cp)"

subsection \<open>\<^verbatim>\<open>stage\<close>\<close>

definition stageCriteria :: criteria where
  "stageCriteria =
     \<lparr>stage0 =
        [(''callsItselfRollup'', Some True),
         (''stateRootsPostedToL1'', Some True),
         (''dataAvailabilityOnL1'', Some True),
         (''rollupNodeSourceAvailable'', Some True)],
      stage1 =
        [(''stateVerificationOnL1'', Some False),
         (''fraudProofSystemAtLeast5Outsiders'', None),
         (''usersHave7DaysToExit'', Some False),
         (''usersCanExitWithoutCooperation'', Some False),
         (''securityCouncilProperlySetUp'', None)],
      stage2 =
        [(''proofSystemOverriddenOnlyInCaseOfABug'', None),
         (''fraudProofSystemIsPermissionless'', None),
         (''delayWith30DExitWindow'', Some False)]\<rparr>"

definition stageContext :: jv where
  "stageContext = objLit
     [Field ''rollupNodeLink''
        (Str ''https://github.com/ethereum-optimism/optimism/tree/develop/op-node'')]"

definition stage :: "env \<Rightarrow> StageResult" where
  "stage e = getStage (requiredForCertainty e) stageCriteria stageContext"

subsection \<open>\<^verbatim>\<open>technology\<close>\<close>

text \<open>A reference is the object \<^verbatim>\<open>{ text, href }\<close>.\<close>

definition reference :: "string \<Rightarrow> string \<Rightarrow> jv" where
  "reference text href = objLit [Field ''text'' (Str text), Field ''href'' (Str href)]"

definition technology :: "env \<Rightarrow> jv" where
  "technology e = objLit
     [Field ''stateCorrectness'' (objLit
        [Field ''name'' (Str ''Fraud proofs are in development''),
         Field ''description'' (Str ''Ultimately, OP stack chains will use interactive fraud proofs to enforce state correctness. This feature is currently in development and the system permits invalid state roots.''),
         Field ''risks'' (Arr
           [objLit
              [Field ''category'' (Str ''Funds can be stolen if''),
               Field ''text'' (Str ''an invalid state root is submitted to the system.''),
               Field ''isCritical'' (Bool True)]]),
         Field ''references'' (Arr
           [reference
              ''L2OutputOracle.sol#L141 - Etherscan source code, deleteL2Outputs function''
              ''https://etherscan.io/address/0x9eedde6b4D3263b97209Ba860eDF3Fc6a8fB6a44#code#F1#L141''])]),
      Field ''dataAvailability'' (objLit
        [Spread (DATA_AVAILABILITY_ON_CHAIN_CANONICAL e),
         Field ''references'' (Arr
           [reference
              ''Derivation: Batch submission - OP Stack specs''
              ''https://github.com/ourzora/optimism/blob/develop/specs/derivation.md#batch-submission'',
            reference
              ''BatchInbox - Etherscan address''
              ''https://etherscan.io/address/0x6f54ca6f6ede96662024ffd61bfd18f3f4e34dff'',
            reference
              ''OptimismPortal.sol#L434 - Etherscan source code, depositTransaction function''
              ''https://etherscan.io/address/0x43260ee547c3965bb2a0174763bb8fecc650ba4a#code#F1#L434''])]),
      Field ''operator'' (objLit
        [Spread (OPERATOR_CENTRALIZED_OPERATOR e),
         Field ''references'' (Arr
           [reference
              ''L2OutputOracle.sol#L30 - Etherscan source code, CHALLENGER address''
              ''https://etherscan.io/address/0x9eedde6b4D3263b97209Ba860eDF3Fc6a8fB6a44#code#F1#L30'',
            reference
              ''L2OutputOracle.sol#L35 - Etherscan source code, PROPOSER address''
              ''https://etherscan.io/address/0x9eedde6b4D3263b97209Ba860eDF3Fc6a8fB6a44#code#F1#L35'',
            reference
              ''Decentralizing the sequencer - OP Stack docs''
              ''https://community.optimism.io/docs/protocol/#decentralizing-the-sequencer''])]),
      Field ''forceTransactions'' (objLit
        [Spread (FORCE_TRANSACTIONS_CANONICAL_ORDERING e),
         Field ''references'' (Arr
           [reference
              ''Sequencing Window - OP Stack specs''
              ''https://github.com/ourzora/optimism/blob/51eeb76efeb32b3df3e978f311188aa29f5e3e94/specs/glossary.md#sequencing-window'',
            reference
              ''OptimismPortal.sol#L434 - Etherscan source code, depositTransaction function''
              ''https://etherscan.io/address/0x43260ee547c3965bb2a0174763bb8fecc650ba4a#code#F1#L434''])]),
      Field ''exitMechanisms'' (Arr
        [objLit
           [Spread (EXITS_REGULAR e ''optimistic'' ''merkle proof''),
            Field ''references'' (Arr
              [reference
                 ''OptimismPortal.sol#L242 - Etherscan source code, proveWithdrawalTransaction function''
                 ''https://etherscan.io/address/0x43260ee547c3965bb2a0174763bb8fecc650ba4a#code#F1#L242'',
               reference
                 ''OptimismPortal.sol#L325 - Etherscan source code, finalizeWithdrawalTransaction function''
                 ''https://etherscan.io/address/0x43260ee547c3965bb2a0174763bb8fecc650ba4a#code#F1#L325'',
               reference
                 ''L2OutputOracle.sol#L185 - Etherscan source code, PROPOSER check''
                 ''https://etherscan.io/address/0x9eedde6b4D3263b97209Ba860eDF3Fc6a8fB6a44#code#F1#L185'']),
            Field ''risks'' (Arr [EXITS_RISK_CENTRALIZED_VALIDATOR e])],
         objLit
           [Spread (EXITS_FORCED e ''all-withdrawals''),
            Field ''references'' (Arr
              [reference
                 ''Forced withdrawal from an OP Stack blockchain''
                 ''https://stack.optimism.io/docs/security/forced-withdrawal/''])]]),
      Field ''smartContracts'' (objLit
        [Field ''name'' (Str ''EVM compatible smart contracts are supported''),
         Field ''description'' (Str ''OP stack chains are pursuing the EVM Equivalence model. No changes to smart contracts are required regardless of the language they are written in, i.e. anything deployed on L1 can be deployed on L2.''),
         Field ''risks'' (Arr []),
         Field ''references'' (Arr
           [reference
              ''Introducing EVM Equivalence''
              ''https://medium.com/ethereum-optimism/introducing-evm-equivalence-5c2021deb306''])])]"

subsection \<open>\<^verbatim>\<open>permissions\<close>, \<^verbatim>\<open>contracts\<close>, \<^verbatim>\<open>milestones\<close>, \<^verbatim>\<open>knowledgeNuggets\<close>\<close>

definition zoraMultisigPermission :: "env \<Rightarrow> error + jv list" where
  "zoraMultisigPermission e = getMultisigPermission e ''ZoraMultisig''
     ''This address is the owner of the following contracts: ProxyAdmin, SystemConfig. It is also designated as a Guardian of the OptimismPortal, meaning it can halt withdrawals. It can upgrade the bridge implementation potentially gaining access to all funds, and change the sequencer, state root proposer or any other system component (unlimited upgrade power).''"

definition challengerMultisigPermission :: "env \<Rightarrow> error + jv list" where
  "challengerMultisigPermission e = getMultisigPermission e ''ChallengerMultisig''
     ''This address is the permissioned challenger of the system. It can delete non finalized roots without going through the fault proof process.''"

definition opStackPermissions :: "env \<Rightarrow> error + jv list" where
  "opStackPermissions e = getOpStackPermissions e (objLit
     [Field ''batcherHash'' (Str ''Sequencer''),
      Field ''PROPOSER'' (Str ''Proposer''),
      Field ''GUARDIAN'' (Str ''Guardian''),
      Field ''CHALLENGER'' (Str ''Challenger'')])"

definition opStackContractDetails :: "env \<Rightarrow> error + jv list" where
  "opStackContractDetails e = getOpStackContractDetails e (Obj upgradesProxy)"

definition l1ERC721BridgeDetails :: "env \<Rightarrow> error + jv" where
  "l1ERC721BridgeDetails e = getContractDetails e ''L1ERC721Bridge'' (objLit
     [Field ''description'' (Str ''The L1ERC721Bridge contract is the main entry point to deposit ERC721 tokens from L1 to L2.''),
      Spread upgradesProxy])"

definition contracts :: "env \<Rightarrow> jv list \<Rightarrow> jv" where
  "contracts e addresses = objLit
     [Field ''addresses'' (Arr addresses),
      Field ''risks'' (Arr [CONTRACTS_UPGRADE_NO_DELAY_RISK e])]"

definition milestones :: jv where
  "milestones = Arr
     [objLit
        [Field ''name'' (Str ''Zora Network Launch''),
         Field ''link'' (Str ''https://twitter.com/ourZORA/status/1671602234994622464''),
         Field ''date'' (Str ''2023-06-21T00:00:00Z''),
         Field ''description'' (Str ''Zora Network is live on mainnet.'')]]"

definition knowledgeNuggets :: "env \<Rightarrow> jv" where
  "knowledgeNuggets e = Arr
     [objLit
        [Field ''title'' (Str ''How Optimism compresses data''),
         Field ''url'' (Str ''https://twitter.com/bkiepuszewski/status/1508740414492323840?s=20&t=vMgR4jW1ssap-A-MBsO4Jw''),
         Field ''thumbnail'' (NUGGETS_THUMBNAILS_L2BEAT_03 e)],
      objLit
        [Field ''title'' (Str ''Bedrock Explainer''),
         Field ''url'' (Str ''https://community.optimism.io/docs/developers/bedrock/explainer/''),
         Field ''thumbnail'' (NUGGETS_THUMBNAILS_OPTIMISM_04 e)],
      objLit
        [Field ''title'' (Str ''Modular Rollup Theory''),
         Field ''url'' (Str ''https://www.youtube.com/watch?v=jnVjhp41pcc''),
         Field ''thumbnail'' (NUGGETS_THUMBNAILS_MODULAR_ROLLUP e)]]"

subsection \<open>The exported record\<close>

record Layer2 =
  type' :: jv
  id' :: jv
  display' :: jv
  config' :: jv
  riskView' :: jv
  stage' :: StageResult
  stateDerivation' :: jv
  technology' :: jv
  permissions' :: jv
  contracts' :: jv
  milestones' :: jv
  knowledgeNuggets' :: jv

text \<open>
  The module is evaluated top to bottom, and the properties of the literal in the order
  they are written. The calls that can fail are the reads of the discovery snapshot, the
  two escrows, the three permission lists and the two contract lists; the first failure
  is the result, and there is no record then.
\<close>

definition zora :: "env \<Rightarrow> error + Layer2" where
  "zora e =
     bindE (FINALIZATION_PERIOD_SECONDS e) (\<lambda>fps.
     bindE (challengePeriod e) (\<lambda>cp.
     bindE (getEscrowDetails e ethEscrowParams) (\<lambda>ethEscrow.
     bindE (getEscrowDetails e erc20EscrowParams) (\<lambda>erc20Escrow.
     bindE (zoraMultisigPermission e) (\<lambda>zoraMultisig.
     bindE (challengerMultisigPermission e) (\<lambda>challengerMultisig.
     bindE (opStackPermissions e) (\<lambda>opStack.
     bindE (opStackContractDetails e) (\<lambda>opStackContracts.
     bindE (l1ERC721BridgeDetails e) (\<lambda>l1ERC721Bridge.
     Inr \<lparr>type' = Str ''layer2'',
          id' = ProjectId ''zora'',
          display' = display e fps,
          config' = config e [ethEscrow, erc20Escrow],
          riskView' = riskView e cp,
          stage' = stage e,
          stateDerivation' = DERIVATION_OPSTACK e ''ZORA'',
          technology' = technology e,
          permissions' = Arr (zoraMultisig @ challengerMultisig @ opStack),
          contracts' = contracts e (opStackContracts @ [l1ERC721Bridge]),
          milestones' = milestones,
          knowledgeNuggets' = knowledgeNuggets e\<rparr>)))))))))"

section \<open>Vocabulary of the properties\<close>

text \<open>
  Readers of the built values, and the predicates in which the properties are stated.
  None of them is part of the program.
\<close>

text \<open>Reading along a path of property names, and the elements of an array.\<close>

fun getPath :: "jv \<Rightarrow> string list \<Rightarrow> jv option" where
  "getPath v [] = Some v"
| "getPath v (k # ks) = (case getProp v k of None \<Rightarrow> None | Some w \<Rightarrow> getPath w ks)"

fun elems :: "jv option \<Rightarrow> jv list" where
  "elems (Some (Arr xs)) = xs"
| "elems _ = []"

fun nonEmptyStr :: "jv option \<Rightarrow> bool" where
  "nonEmptyStr (Some (Str s)) = (s \<noteq> [])"
| "nonEmptyStr _ = False"

text \<open>
  Modelled from the spec: the risk dimensions that section 3 requires of a \<open>riskView\<close>
  (state validation, data availability, exit window, sequencer failure, proposer
  failure, destination token, validator identity), under the keys of the file.
\<close>

definition riskDimensions :: "string list" where
  "riskDimensions =
     [''stateValidation'', ''dataAvailability'', ''exitWindow'', ''sequencerFailure'',
      ''proposerFailure'', ''destinationToken'', ''validatedBy'']"

text \<open>
  \<^verbatim>\<open>makeBridgeCompatible\<close> is not in the source. Where a property speaks of the
  \<^verbatim>\<open>riskView\<close> of the record, and not of the object that the file hands to
  \<^verbatim>\<open>makeBridgeCompatible\<close>, it is stated for a function that returns the risk dimensions
  as it was given them.
\<close>

definition keepsRiskDimensions :: "(jv \<Rightarrow> jv) \<Rightarrow> bool" where
  "keepsRiskDimensions f = (\<forall>v. \<forall>k \<in> set riskDimensions. getProp (f v) k = getProp v k)"

text \<open>A table entry with one source attached, \<^verbatim>\<open>{ ...entry, sources: [{ contract,
  references: [url] }] }\<close>, as the file writes four of its risk entries.\<close>

definition withSources :: "obj \<Rightarrow> string \<Rightarrow> string \<Rightarrow> jv" where
  "withSources entry contract url = objLit
     [Spread entry,
      Field ''sources'' (Arr
        [objLit [Field ''contract'' (Str contract), Field ''references'' (Arr [Str url])]])]"

text \<open>
  The references of the technology sections: the \<^verbatim>\<open>references\<close> of the five sections
  that are objects and of each element of \<^verbatim>\<open>exitMechanisms\<close>. A reference is valid if
  its text and its href are non-empty strings.
\<close>

fun given :: "jv option \<Rightarrow> jv list" where
  "given (Some v) = [v]"
| "given None = []"

definition validReference :: "jv \<Rightarrow> bool" where
  "validReference r = (nonEmptyStr (getProp r ''text'') \<and> nonEmptyStr (getProp r ''href''))"

definition technologySections :: "jv \<Rightarrow> jv list" where
  "technologySections t =
     given (getProp t ''stateCorrectness'') @ given (getProp t ''dataAvailability'') @
     given (getProp t ''operator'') @ given (getProp t ''forceTransactions'') @
     elems (getProp t ''exitMechanisms'') @ given (getProp t ''smartContracts'')"

definition technologyReferences :: "jv \<Rightarrow> jv list" where
  "technologyReferences t =
     concat (map (\<lambda>s. elems (getProp s ''references'')) (technologySections t))"

text \<open>
  The sources of the risk entries to which the file attaches them. A source is valid if
  its contract name is a non-empty string and its references are a non-empty list of
  non-empty strings.
\<close>

definition validSource :: "jv \<Rightarrow> bool" where
  "validSource s =
     (nonEmptyStr (getProp s ''contract'') \<and>
      elems (getProp s ''references'') \<noteq> [] \<and>
      list_all (\<lambda>url. nonEmptyStr (Some url)) (elems (getProp s ''references'')))"

definition sourcedDimensions :: "string list" where
  "sourcedDimensions =
     [''dataAvailability'', ''exitWindow'', ''sequencerFailure'', ''proposerFailure'']"

definition riskSources :: "jv \<Rightarrow> jv list" where
  "riskSources rv =
     concat (map (\<lambda>k. elems (getPath rv [k, ''sources''])) sourcedDimensions)"

text \<open>The tokens of an escrow: the wildcard \<^verbatim>\<open>'*'\<close>, or a non-empty list of symbols.\<close>

fun isStr :: "jv \<Rightarrow> bool" where
  "isStr (Str s) = True"
| "isStr _ = False"

fun allTokens :: "jv option \<Rightarrow> bool" where
  "allTokens (Some (Str s)) = (s = ''*'')"
| "allTokens _ = False"

fun tokenSet :: "jv option \<Rightarrow> bool" where
  "tokenSet (Some (Arr xs)) = (xs \<noteq> [] \<and> list_all isStr xs)"
| "tokenSet _ = False"

definition tokensOk :: "jv \<Rightarrow> bool" where
  "tokensOk escrow =
     (allTokens (getProp escrow ''tokens'') \<or> tokenSet (getProp escrow ''tokens''))"



section \<open>Sample inputs\<close>




fun sampleWellFormedAddress :: "jv \<Rightarrow> bool" where
  "sampleWellFormedAddress (Str s) = (length s = 42 \<and> take 2 s = ''0x'')"
| "sampleWellFormedAddress _ = False"

fun sampleWellFormedTimestamp :: "jv \<Rightarrow> bool" where
  "sampleWellFormedTimestamp (Num n) = (0 \<le> n)"
| "sampleWellFormedTimestamp _ = False"

fun sampleFormatSeconds :: "jv \<Rightarrow> string" where
  "sampleFormatSeconds (Num n) =
     (if n = 604800 then ''7d'' else if n = 43200 then ''12h'' else ''some time'')"
| "sampleFormatSeconds _ = ''some time''"

fun sampleMakeBridgeCompatible :: "jv \<Rightarrow> jv" where
  "sampleMakeBridgeCompatible (Obj ps) =
     Obj (setProp ''sourceUpgradeability''
       (objLit [Field ''value'' (Str ''''), Field ''description'' (Str ''''),
                Field ''sentiment'' (Str ''neutral'')]) ps)"
| "sampleMakeBridgeCompatible v = v"

definition sampleRisk :: "string \<Rightarrow> obj" where
  "sampleRisk v = [(''value'', Str v), (''sources'', Arr [])]"

definition sampleEnv :: env where
  "sampleEnv =
     \<lparr>snapshot = [(''L2OutputOracle'', ''FINALIZATION_PERIOD_SECONDS'') \<mapsto> Num 604800],
      wellFormedAddress = sampleWellFormedAddress,
      wellFormedTimestamp = sampleWellFormedTimestamp,
      getMultisigPermission = (\<lambda>name description. Inr [Str name]),
      getOpStackPermissions = (\<lambda>roles. Inr []),
      getOpStackContractDetails = (\<lambda>metadata. Inr []),
      getContractDetails = (\<lambda>name metadata. Inr metadata),
      requiredForCertainty = (\<lambda>field. False),
      formatSeconds = sampleFormatSeconds,
      subtractOne = Fn ''subtractOne'',
      makeBridgeCompatible = sampleMakeBridgeCompatible,
      HARDCODED_OPTIMISM_SEQUENCING_WINDOW_SECONDS = Num 43200,
      OPTIMISTIC_ROLLUP_STATE_UPDATES_WARNING = Str ''warning'',
      RISK_VIEW_STATE_NONE = Obj (sampleRisk ''None''),
      RISK_VIEW_DATA_ON_CHAIN = sampleRisk ''On chain'',
      RISK_VIEW_EXIT_WINDOW = (\<lambda>delay period.
        [(''value'', Str ''None''), (''upgradeDelay'', delay), (''challengePeriod'', period)]),
      RISK_VIEW_SEQUENCER_SELF_SEQUENCE = (\<lambda>delay.
        [(''value'', Str ''Self sequence''), (''delay'', delay)]),
      RISK_VIEW_PROPOSER_CANNOT_WITHDRAW = sampleRisk ''Cannot withdraw'',
      RISK_VIEW_NATIVE_AND_CANONICAL = Obj (sampleRisk ''Native & Canonical''),
      RISK_VIEW_VALIDATED_BY_ETHEREUM = Obj (sampleRisk ''Ethereum''),
      DERIVATION_OPSTACK = (\<lambda>name. Str name),
      DATA_AVAILABILITY_ON_CHAIN_CANONICAL = [(''name'', Str ''On chain''), (''references'', Arr [])],
      OPERATOR_CENTRALIZED_OPERATOR = [(''name'', Str ''Centralized''), (''references'', Arr [])],
      FORCE_TRANSACTIONS_CANONICAL_ORDERING = [(''name'', Str ''Canonical''), (''references'', Arr [])],
      EXITS_REGULAR = (\<lambda>kind proof. [(''name'', Str ''Regular exit''), (''references'', Arr [])]),
      EXITS_FORCED = (\<lambda>kind. [(''name'', Str ''Forced exit''), (''references'', Arr [])]),
      EXITS_RISK_CENTRALIZED_VALIDATOR = Null,
      CONTRACTS_UPGRADE_NO_DELAY_RISK = Null,
      NUGGETS_THUMBNAILS_L2BEAT_03 = Str ''l2beat03.jpg'',
      NUGGETS_THUMBNAILS_OPTIMISM_04 = Str ''optimism04.jpg'',
      NUGGETS_THUMBNAILS_MODULAR_ROLLUP = Str ''modular.jpg''\<rparr>"

definition noSnapshotEnv :: env where
  "noSnapshotEnv = sampleEnv\<lparr>snapshot := Map.empty\<rparr>"

section \<open>Object literals and the build\<close>

lemma map_of_setProp:
  "map_of (setProp k v ps) k' = (if k' = k then Some v else map_of ps k')"
  by (induction ps) auto

lemma map_of_spread:
  "map_of (foldl (\<lambda>acc (k, v). setProp k v acc) ps qs) k' =
     (case map_of (rev qs) k' of Some v \<Rightarrow> Some v | None \<Rightarrow> map_of ps k')"
proof (induction qs arbitrary: ps)
  case Nil
  show ?case by simp
next
  case (Cons q qs)
  obtain k v where q: "q = (k, v)" by (cases q)
  show ?case
    by (auto simp: q Cons.IH map_of_setProp map_add_def split: option.splits)
qed

lemma bindE_Inr: "bindE m f = Inr r \<longleftrightarrow> (\<exists>x. m = Inr x \<and> f x = Inr r)"
  by (cases m) (simp_all add: bindE_def)

lemma getProp_objLit: "getProp (objLit es) k = map_of (foldl addEntry [] es) k"
  by (simp add: objLit_def)

lemmas obj_simps = getProp_objLit map_of_setProp map_of_spread

lemma getContractValue_Inr:
  "getContractValue e c f = Inr v \<longleftrightarrow> snapshot e (c, f) = Some v"
  by (simp add: getContractValue_def split: option.splits)

lemma getEscrowDetails_Inr: "getEscrowDetails e p = Inr c \<Longrightarrow> c = p"
  by (auto simp: getEscrowDetails_def split: option.splits if_splits)

text \<open>What a built record is made of.\<close>

lemma zora_Inr:
  assumes "zora e = Inr r"
  obtains v ethEscrow erc20Escrow where
    "snapshot e (''L2OutputOracle'', ''FINALIZATION_PERIOD_SECONDS'') = Some v"
    "getEscrowDetails e ethEscrowParams = Inr ethEscrow"
    "getEscrowDetails e erc20EscrowParams = Inr erc20Escrow"
    "display' r = display e v"
    "config' r = config e [ethEscrow, erc20Escrow]"
    "riskView' r = riskView e v"
    "stage' r = stage e"
    "technology' r = technology e"
  using assms
  by (auto simp: zora_def bindE_Inr FINALIZATION_PERIOD_SECONDS_def challengePeriod_def
      getContractValue_Inr)

lemma zora_sample_ok: "\<exists>r. zora sampleEnv = Inr r"
  by (simp add: zora_def bindE_def FINALIZATION_PERIOD_SECONDS_def challengePeriod_def
      getContractValue_def sampleEnv_def getEscrowDetails_def ethEscrowParams_def
      erc20EscrowParams_def obj_simps EthereumAddress_def UnixTime_def upgradesProxy_def
      zoraMultisigPermission_def challengerMultisigPermission_def opStackPermissions_def
      opStackContractDetails_def l1ERC721BridgeDetails_def)

text \<open>
  Claim C3. When the discovery snapshot has no value for the field
  \<^verbatim>\<open>FINALIZATION_PERIOD_SECONDS\<close> of the contract \<^verbatim>\<open>L2OutputOracle\<close>, building the zora
  record fails with \<open>MissingField\<close> for that contract and field. No record is built, so
  no zero or default stands in for the missing value.
\<close>

theorem zora_missing_field:
  "snapshot e (''L2OutputOracle'', ''FINALIZATION_PERIOD_SECONDS'') = None \<Longrightarrow>
   zora e = Inl (MissingField ''L2OutputOracle'' ''FINALIZATION_PERIOD_SECONDS'') \<and>
   (\<forall>r. zora e \<noteq> Inr r)"
  by (simp add: zora_def bindE_def FINALIZATION_PERIOD_SECONDS_def getContractValue_def)

text \<open>The sample environment without its snapshot fails in this way.\<close>

theorem zora_missing_field_witness:
  "snapshot noSnapshotEnv (''L2OutputOracle'', ''FINALIZATION_PERIOD_SECONDS'') = None \<and>
   zora noSnapshotEnv = Inl (MissingField ''L2OutputOracle'' ''FINALIZATION_PERIOD_SECONDS'')"
proof -
  have h: "snapshot noSnapshotEnv (''L2OutputOracle'', ''FINALIZATION_PERIOD_SECONDS'') = None"
    by (simp add: noSnapshotEnv_def)
  show ?thesis using h zora_missing_field [OF h] by simp
qed

section \<open>Properties of the stage classifier\<close>





















section \<open>Properties of the record\<close>

lemma keepsRiskDimensions_sample: "keepsRiskDimensions sampleMakeBridgeCompatible"
proof -
  have "getProp (sampleMakeBridgeCompatible v) k = getProp v k"
    if "k \<in> set riskDimensions" for v k
    using that by (cases v) (auto simp: map_of_setProp riskDimensions_def)
  then show ?thesis by (simp add: keepsRiskDimensions_def)
qed

lemma keepsRiskDimensionsD:
  "keepsRiskDimensions f \<Longrightarrow> k \<in> set riskDimensions \<Longrightarrow> getProp (f v) k = getProp v k"
  by (simp add: keepsRiskDimensions_def)

lemma zora_sample: "zora sampleEnv = Inr (projr (zora sampleEnv))"
  using zora_sample_ok by auto

lemma riskViewEntries_props:
  "getProp (riskViewEntries e cp) ''stateValidation'' = Some (RISK_VIEW_STATE_NONE e)"
  "getProp (riskViewEntries e cp) ''dataAvailability'' =
     Some (withSources (RISK_VIEW_DATA_ON_CHAIN e) ''OptimismPortal''
       ''https://etherscan.io/address/0x43260ee547c3965bb2a0174763bb8FEcC650BA4A#code#F1#L434'')"
  "getProp (riskViewEntries e cp) ''exitWindow'' =
     Some (withSources (RISK_VIEW_EXIT_WINDOW e upgradeDelay cp) ''OptimismPortal''
       ''https://etherscan.io/address/0x1a0ad011913A150f69f6A19DF447A0CfD9551054'')"
  "getProp (riskViewEntries e cp) ''sequencerFailure'' =
     Some (withSources
       (RISK_VIEW_SEQUENCER_SELF_SEQUENCE e (HARDCODED_OPTIMISM_SEQUENCING_WINDOW_SECONDS e))
       ''OptimismPortal''
       ''https://etherscan.io/address/0x43260ee547c3965bb2a0174763bb8FEcC650BA4A#code#F1#L434'')"
  "getProp (riskViewEntries e cp) ''proposerFailure'' =
     Some (withSources (RISK_VIEW_PROPOSER_CANNOT_WITHDRAW e) ''L2OutputOracle''
       ''https://etherscan.io/address/0x9eedde6b4D3263b97209Ba860eDF3Fc6a8fB6a44#code#F1#L186'')"
  "getProp (riskViewEntries e cp) ''destinationToken'' = Some (RISK_VIEW_NATIVE_AND_CANONICAL e)"
  "getProp (riskViewEntries e cp) ''validatedBy'' = Some (RISK_VIEW_VALIDATED_BY_ETHEREUM e)"
  by (simp_all add: riskViewEntries_def withSources_def getProp_objLit map_of_setProp)

text \<open>
  Claim C2. When the snapshot holds 604800 for the finalization period of
  \<^verbatim>\<open>L2OutputOracle\<close>, the \<^verbatim>\<open>exitWindow\<close> entry that a built record hands to
  \<^verbatim>\<open>makeBridgeCompatible\<close> is \<^verbatim>\<open>RISK_VIEW.EXIT_WINDOW(0, 604800)\<close> with the listed source
  attached; the upgrade delay is the constant 0. If \<^verbatim>\<open>makeBridgeCompatible\<close> returns the
  risk dimensions as it was given them, this is the \<^verbatim>\<open>riskView.exitWindow\<close> of the record.
\<close>

theorem exitWindow_from_pair:
  assumes "zora e = Inr r"
    and "snapshot e (''L2OutputOracle'', ''FINALIZATION_PERIOD_SECONDS'') = Some (Num 604800)"
  shows "upgradeDelay = Num 0 \<and>
    riskView' r = makeBridgeCompatible e (riskViewEntries e (Num 604800)) \<and>
    getProp (riskViewEntries e (Num 604800)) ''exitWindow'' =
      Some (withSources (RISK_VIEW_EXIT_WINDOW e (Num 0) (Num 604800)) ''OptimismPortal''
        ''https://etherscan.io/address/0x1a0ad011913A150f69f6A19DF447A0CfD9551054'') \<and>
    (keepsRiskDimensions (makeBridgeCompatible e) \<longrightarrow>
       getProp (riskView' r) ''exitWindow'' =
         Some (withSources (RISK_VIEW_EXIT_WINDOW e (Num 0) (Num 604800)) ''OptimismPortal''
           ''https://etherscan.io/address/0x1a0ad011913A150f69f6A19DF447A0CfD9551054''))"
proof -
  from assms have rv: "riskView' r = makeBridgeCompatible e (riskViewEntries e (Num 604800))"
    by (auto elim!: zora_Inr simp: riskView_def)
  have ew: "getProp (riskViewEntries e (Num 604800)) ''exitWindow'' =
      Some (withSources (RISK_VIEW_EXIT_WINDOW e (Num 0) (Num 604800)) ''OptimismPortal''
        ''https://etherscan.io/address/0x1a0ad011913A150f69f6A19DF447A0CfD9551054'')"
    using riskViewEntries_props(3) [of e "Num 604800"] by (simp add: upgradeDelay_def)
  have "getProp (makeBridgeCompatible e (riskViewEntries e (Num 604800))) ''exitWindow'' =
        getProp (riskViewEntries e (Num 604800)) ''exitWindow''"
    if "keepsRiskDimensions (makeBridgeCompatible e)"
    using that by (rule keepsRiskDimensionsD) (simp add: riskDimensions_def)
  with rv ew show ?thesis by (simp add: upgradeDelay_def)
qed

text \<open>The sample environment, whose exit-window table records the pair it is applied to.\<close>

theorem exitWindow_from_pair_witness:
  "zora sampleEnv = Inr (projr (zora sampleEnv)) \<and>
   snapshot sampleEnv (''L2OutputOracle'', ''FINALIZATION_PERIOD_SECONDS'') = Some (Num 604800) \<and>
   keepsRiskDimensions (makeBridgeCompatible sampleEnv) \<and>
   getProp (riskView' (projr (zora sampleEnv))) ''exitWindow'' =
     Some (withSources
       [(''value'', Str ''None''), (''upgradeDelay'', Num 0), (''challengePeriod'', Num 604800)]
       ''OptimismPortal''
       ''https://etherscan.io/address/0x1a0ad011913A150f69f6A19DF447A0CfD9551054'')"
proof -
  have s: "snapshot sampleEnv (''L2OutputOracle'', ''FINALIZATION_PERIOD_SECONDS'') =
      Some (Num 604800)"
    by (simp add: sampleEnv_def)
  have k: "keepsRiskDimensions (makeBridgeCompatible sampleEnv)"
    using keepsRiskDimensions_sample by (simp add: sampleEnv_def)
  have t: "RISK_VIEW_EXIT_WINDOW sampleEnv (Num 0) (Num 604800) =
      [(''value'', Str ''None''), (''upgradeDelay'', Num 0), (''challengePeriod'', Num 604800)]"
    by (simp add: sampleEnv_def)
  from exitWindow_from_pair [OF zora_sample s, unfolded t] k zora_sample s
  show ?thesis by blast
qed

text \<open>
  Claim C4. The object that a built record hands to \<^verbatim>\<open>makeBridgeCompatible\<close> has all seven
  risk dimensions: \<^verbatim>\<open>stateValidation\<close>, \<^verbatim>\<open>destinationToken\<close> and \<^verbatim>\<open>validatedBy\<close> are entries
  of \<^verbatim>\<open>RISK_VIEW\<close> as they are, and \<^verbatim>\<open>dataAvailability\<close>, \<^verbatim>\<open>exitWindow\<close>,
  \<^verbatim>\<open>sequencerFailure\<close> and \<^verbatim>\<open>proposerFailure\<close> are entries of \<^verbatim>\<open>RISK_VIEW\<close> with a source
  attached. If \<^verbatim>\<open>makeBridgeCompatible\<close> returns the risk dimensions as it was given them,
  the \<^verbatim>\<open>riskView\<close> of the record has all seven.
\<close>

theorem riskView_populated:
  assumes "zora e = Inr r"
  shows "\<exists>cp. challengePeriod e = Inr cp \<and>
    riskView' r = makeBridgeCompatible e (riskViewEntries e cp) \<and>
    getProp (riskViewEntries e cp) ''stateValidation'' = Some (RISK_VIEW_STATE_NONE e) \<and>
    getProp (riskViewEntries e cp) ''dataAvailability'' =
      Some (withSources (RISK_VIEW_DATA_ON_CHAIN e) ''OptimismPortal''
        ''https://etherscan.io/address/0x43260ee547c3965bb2a0174763bb8FEcC650BA4A#code#F1#L434'') \<and>
    getProp (riskViewEntries e cp) ''exitWindow'' =
      Some (withSources (RISK_VIEW_EXIT_WINDOW e upgradeDelay cp) ''OptimismPortal''
        ''https://etherscan.io/address/0x1a0ad011913A150f69f6A19DF447A0CfD9551054'') \<and>
    getProp (riskViewEntries e cp) ''sequencerFailure'' =
      Some (withSources
        (RISK_VIEW_SEQUENCER_SELF_SEQUENCE e (HARDCODED_OPTIMISM_SEQUENCING_WINDOW_SECONDS e))
        ''OptimismPortal''
        ''https://etherscan.io/address/0x43260ee547c3965bb2a0174763bb8FEcC650BA4A#code#F1#L434'') \<and>
    getProp (riskViewEntries e cp) ''proposerFailure'' =
      Some (withSources (RISK_VIEW_PROPOSER_CANNOT_WITHDRAW e) ''L2OutputOracle''
        ''https://etherscan.io/address/0x9eedde6b4D3263b97209Ba860eDF3Fc6a8fB6a44#code#F1#L186'') \<and>
    getProp (riskViewEntries e cp) ''destinationToken'' =
      Some (RISK_VIEW_NATIVE_AND_CANONICAL e) \<and>
    getProp (riskViewEntries e cp) ''validatedBy'' = Some (RISK_VIEW_VALIDATED_BY_ETHEREUM e) \<and>
    list_all (hasOwn (riskViewEntries e cp)) riskDimensions \<and>
    (keepsRiskDimensions (makeBridgeCompatible e) \<longrightarrow>
       list_all (hasOwn (riskView' r)) riskDimensions)"
proof -
  from assms obtain cp where cp: "challengePeriod e = Inr cp"
    and rv: "riskView' r = makeBridgeCompatible e (riskViewEntries e cp)"
    by (auto elim!: zora_Inr simp: riskView_def challengePeriod_def getContractValue_Inr)
  have own: "list_all (hasOwn (riskViewEntries e cp)) riskDimensions"
    by (simp add: riskDimensions_def riskViewEntries_props)
  have "list_all (hasOwn (makeBridgeCompatible e (riskViewEntries e cp))) riskDimensions"
    if "keepsRiskDimensions (makeBridgeCompatible e)"
    using own keepsRiskDimensionsD [OF that] by (simp add: list_all_iff)
  with cp rv own show ?thesis by (auto simp: riskViewEntries_props)
qed

text \<open>The record built in the sample environment has the seven dimensions.\<close>

theorem riskView_populated_witness:
  "zora sampleEnv = Inr (projr (zora sampleEnv)) \<and>
   keepsRiskDimensions (makeBridgeCompatible sampleEnv) \<and>
   list_all (hasOwn (riskView' (projr (zora sampleEnv)))) riskDimensions"
proof -
  have k: "keepsRiskDimensions (makeBridgeCompatible sampleEnv)"
    using keepsRiskDimensions_sample by (simp add: sampleEnv_def)
  from riskView_populated [OF zora_sample] k zora_sample
  show ?thesis by blast
qed

text \<open>
  Claim C10. The constants \<^verbatim>\<open>FINALIZATION_PERIOD_SECONDS\<close> and \<^verbatim>\<open>challengePeriod\<close> are equal
  in every environment: both are the read of the field \<^verbatim>\<open>FINALIZATION_PERIOD_SECONDS\<close> of
  \<^verbatim>\<open>L2OutputOracle\<close>. In a built record with the value \<open>v\<close> of that field, the text of
  \<^verbatim>\<open>display.liveness.explanation\<close> ends in \<^verbatim>\<open>The state root gets finalized\<close>, the
  rendering \<open>formatSeconds e v\<close>, and \<^verbatim>\<open>after it has been posted.\<close>, and the challenge
  period handed to \<^verbatim>\<open>RISK_VIEW.EXIT_WINDOW\<close> for the \<^verbatim>\<open>exitWindow\<close> entry is the same \<open>v\<close>.
\<close>

theorem finalization_is_challenge_period:
  "FINALIZATION_PERIOD_SECONDS e = challengePeriod e \<and>
   FINALIZATION_PERIOD_SECONDS e =
     getContractValue e ''L2OutputOracle'' ''FINALIZATION_PERIOD_SECONDS'' \<and>
   challengePeriod e =
     getContractValue e ''L2OutputOracle'' ''FINALIZATION_PERIOD_SECONDS'' \<and>
   (zora e = Inr r \<longrightarrow>
      (\<exists>v. snapshot e (''L2OutputOracle'', ''FINALIZATION_PERIOD_SECONDS'') = Some v \<and>
         FINALIZATION_PERIOD_SECONDS e = Inr v \<and> challengePeriod e = Inr v \<and>
         getPath (display' r) [''liveness'', ''explanation''] =
           Some (Str
             (''Zora is an Optimistic rollup that posts transaction data to the L1. For a transaction to be considered final, it has to be posted within a tx batch on L1 that links to a previous finalized batch. If the previous batch is missing, transaction finalization can be delayed up to ''
              @ formatSeconds e (HARDCODED_OPTIMISM_SEQUENCING_WINDOW_SECONDS e)
              @ '' or until it gets published. The state root gets finalized ''
              @ formatSeconds e v
              @ '' after it has been posted.'')) \<and>
         riskView' r = makeBridgeCompatible e (riskViewEntries e v) \<and>
         getProp (riskViewEntries e v) ''exitWindow'' =
           Some (withSources (RISK_VIEW_EXIT_WINDOW e upgradeDelay v) ''OptimismPortal''
             ''https://etherscan.io/address/0x1a0ad011913A150f69f6A19DF447A0CfD9551054'')))"
proof (intro conjI impI)
  show "FINALIZATION_PERIOD_SECONDS e = challengePeriod e"
    by (simp add: FINALIZATION_PERIOD_SECONDS_def challengePeriod_def)
  show "FINALIZATION_PERIOD_SECONDS e =
     getContractValue e ''L2OutputOracle'' ''FINALIZATION_PERIOD_SECONDS''"
    by (simp add: FINALIZATION_PERIOD_SECONDS_def)
  show "challengePeriod e =
     getContractValue e ''L2OutputOracle'' ''FINALIZATION_PERIOD_SECONDS''"
    by (simp add: challengePeriod_def)
next
  assume "zora e = Inr r"
  then obtain v where v: "snapshot e (''L2OutputOracle'', ''FINALIZATION_PERIOD_SECONDS'') = Some v"
    and d: "display' r = display e v" and rv: "riskView' r = riskView e v"
    by (auto elim!: zora_Inr)
  have x: "getPath (display e v) [''liveness'', ''explanation''] =
           Some (Str
             (''Zora is an Optimistic rollup that posts transaction data to the L1. For a transaction to be considered final, it has to be posted within a tx batch on L1 that links to a previous finalized batch. If the previous batch is missing, transaction finalization can be delayed up to ''
              @ formatSeconds e (HARDCODED_OPTIMISM_SEQUENCING_WINDOW_SECONDS e)
              @ '' or until it gets published. The state root gets finalized ''
              @ formatSeconds e v
              @ '' after it has been posted.''))"
    by (simp add: display_def explanation_def getProp_objLit map_of_setProp)
  have f: "FINALIZATION_PERIOD_SECONDS e = Inr v" "challengePeriod e = Inr v"
    using v by (simp_all add: FINALIZATION_PERIOD_SECONDS_def challengePeriod_def
        getContractValue_Inr)
  have w: "riskView' r = makeBridgeCompatible e (riskViewEntries e v)"
    using rv by (simp add: riskView_def)
  from v f x [folded d] w riskViewEntries_props(3) [of e v]
  show "\<exists>v. snapshot e (''L2OutputOracle'', ''FINALIZATION_PERIOD_SECONDS'') = Some v \<and>
         FINALIZATION_PERIOD_SECONDS e = Inr v \<and> challengePeriod e = Inr v \<and>
         getPath (display' r) [''liveness'', ''explanation''] =
           Some (Str
             (''Zora is an Optimistic rollup that posts transaction data to the L1. For a transaction to be considered final, it has to be posted within a tx batch on L1 that links to a previous finalized batch. If the previous batch is missing, transaction finalization can be delayed up to ''
              @ formatSeconds e (HARDCODED_OPTIMISM_SEQUENCING_WINDOW_SECONDS e)
              @ '' or until it gets published. The state root gets finalized ''
              @ formatSeconds e v
              @ '' after it has been posted.'')) \<and>
         riskView' r = makeBridgeCompatible e (riskViewEntries e v) \<and>
         getProp (riskViewEntries e v) ''exitWindow'' =
           Some (withSources (RISK_VIEW_EXIT_WINDOW e upgradeDelay v) ''OptimismPortal''
             ''https://etherscan.io/address/0x1a0ad011913A150f69f6A19DF447A0CfD9551054'')"
    by blast
qed

text \<open>
  In the sample environment both constants are 604800: the explanation ends in the
  rendering of 604800, and the exit-window table is applied to 604800.
\<close>

theorem finalization_is_challenge_period_witness:
  "zora sampleEnv = Inr (projr (zora sampleEnv)) \<and>
   FINALIZATION_PERIOD_SECONDS sampleEnv = Inr (Num 604800) \<and>
   challengePeriod sampleEnv = Inr (Num 604800) \<and>
   getPath (display' (projr (zora sampleEnv))) [''liveness'', ''explanation''] =
     Some (Str ''Zora is an Optimistic rollup that posts transaction data to the L1. For a transaction to be considered final, it has to be posted within a tx batch on L1 that links to a previous finalized batch. If the previous batch is missing, transaction finalization can be delayed up to 12h or until it gets published. The state root gets finalized 7d after it has been posted.'') \<and>
   getProp (riskViewEntries sampleEnv (Num 604800)) ''exitWindow'' =
     Some (withSources
       [(''value'', Str ''None''), (''upgradeDelay'', Num 0), (''challengePeriod'', Num 604800)]
       ''OptimismPortal''
       ''https://etherscan.io/address/0x1a0ad011913A150f69f6A19DF447A0CfD9551054'')"
proof -
  have s: "snapshot sampleEnv (''L2OutputOracle'', ''FINALIZATION_PERIOD_SECONDS'') =
      Some (Num 604800)"
    by (simp add: sampleEnv_def)
  from finalization_is_challenge_period [of sampleEnv "projr (zora sampleEnv)"] zora_sample
  obtain v where v: "snapshot sampleEnv (''L2OutputOracle'', ''FINALIZATION_PERIOD_SECONDS'') =
      Some v"
    and f: "FINALIZATION_PERIOD_SECONDS sampleEnv = Inr v"
    and c: "challengePeriod sampleEnv = Inr v"
    and p: "getPath (display' (projr (zora sampleEnv))) [''liveness'', ''explanation''] =
           Some (Str
             (''Zora is an Optimistic rollup that posts transaction data to the L1. For a transaction to be considered final, it has to be posted within a tx batch on L1 that links to a previous finalized batch. If the previous batch is missing, transaction finalization can be delayed up to ''
              @ formatSeconds sampleEnv (HARDCODED_OPTIMISM_SEQUENCING_WINDOW_SECONDS sampleEnv)
              @ '' or until it gets published. The state root gets finalized ''
              @ formatSeconds sampleEnv v
              @ '' after it has been posted.''))"
    and x: "getProp (riskViewEntries sampleEnv v) ''exitWindow'' =
           Some (withSources (RISK_VIEW_EXIT_WINDOW sampleEnv upgradeDelay v) ''OptimismPortal''
             ''https://etherscan.io/address/0x1a0ad011913A150f69f6A19DF447A0CfD9551054'')"
    by blast
  from v s have e: "v = Num 604800" by simp
  have 1: "FINALIZATION_PERIOD_SECONDS sampleEnv = Inr (Num 604800)"
    and 2: "challengePeriod sampleEnv = Inr (Num 604800)"
    using f c unfolding e by blast+
  have 3: "getPath (display' (projr (zora sampleEnv))) [''liveness'', ''explanation''] =
     Some (Str ''Zora is an Optimistic rollup that posts transaction data to the L1. For a transaction to be considered final, it has to be posted within a tx batch on L1 that links to a previous finalized batch. If the previous batch is missing, transaction finalization can be delayed up to 12h or until it gets published. The state root gets finalized 7d after it has been posted.'')"
    unfolding p e by (simp add: sampleEnv_def)
  have 4: "getProp (riskViewEntries sampleEnv (Num 604800)) ''exitWindow'' =
     Some (withSources
       [(''value'', Str ''None''), (''upgradeDelay'', Num 0), (''challengePeriod'', Num 604800)]
       ''OptimismPortal''
       ''https://etherscan.io/address/0x1a0ad011913A150f69f6A19DF447A0CfD9551054'')"
    using x unfolding e by (simp add: sampleEnv_def upgradeDelay_def)
  from zora_sample 1 2 3 4 show ?thesis by blast
qed

lemma escrowParams_props:
  "getProp ethEscrowParams ''address'' =
     Some (EthereumAddress ''0x1a0ad011913A150f69f6A19DF447A0CfD9551054'')"
  "getProp ethEscrowParams ''sinceTimestamp'' = Some (UnixTime 1686607200)"
  "getProp ethEscrowParams ''tokens'' = Some (Arr [Str ''ETH''])"
  "getProp ethEscrowParams ''description'' =
     Some (Str ''Main entry point for users depositing ETH.'')"
  "getProp ethEscrowParams ''upgradableBy'' = Some (Arr [Str ''ProxyAdmin''])"
  "getProp ethEscrowParams ''upgradeDelay'' = Some (Str ''No delay'')"
  "getProp erc20EscrowParams ''address'' =
     Some (EthereumAddress ''0x3e2Ea9B92B7E48A52296fD261dc26fd995284631'')"
  "getProp erc20EscrowParams ''sinceTimestamp'' = Some (UnixTime 1686607200)"
  "getProp erc20EscrowParams ''tokens'' = Some (Str ''*'')"
  "getProp erc20EscrowParams ''description'' =
     Some (Str ''Main entry point for users depositing ERC20 token that do not require custom gateway.'')"
  "getProp erc20EscrowParams ''upgradableBy'' = Some (Arr [Str ''ProxyAdmin''])"
  "getProp erc20EscrowParams ''upgradeDelay'' = Some (Str ''No delay'')"
  by (simp_all add: ethEscrowParams_def erc20EscrowParams_def upgradesProxy_def obj_simps)

text \<open>
  Claim C5. An \<open>EscrowConfig\<close> that \<open>getEscrowDetails\<close> returns for parameters whose
  tokens are the wildcard has the wildcard as its tokens, and not the empty list. The
  escrows of a built record are the two parameter objects of the file: the tokens of the
  first are a non-empty list of symbols, the tokens of the second are the wildcard, so
  the tokens of every escrow are one or the other.
\<close>

theorem escrow_tokens:
  "(getEscrowDetails e params = Inr escrow \<and> allTokens (getProp params ''tokens'') \<longrightarrow>
      allTokens (getProp escrow ''tokens'') \<and> getProp escrow ''tokens'' \<noteq> Some (Arr [])) \<and>
   (zora e = Inr r \<longrightarrow>
      getProp (config' r) ''escrows'' = Some (Arr [ethEscrowParams, erc20EscrowParams]) \<and>
      tokenSet (getProp ethEscrowParams ''tokens'') \<and>
      allTokens (getProp erc20EscrowParams ''tokens'') \<and>
      list_all tokensOk (elems (getProp (config' r) ''escrows'')))"
proof (intro conjI impI)
  assume h: "getEscrowDetails e params = Inr escrow \<and> allTokens (getProp params ''tokens'')"
  then have "escrow = params" using getEscrowDetails_Inr by blast
  with h show "allTokens (getProp escrow ''tokens'')" by simp
  then show "getProp escrow ''tokens'' \<noteq> Some (Arr [])" by auto
next
  assume "zora e = Inr r"
  then obtain ethEscrow erc20Escrow where
    "getEscrowDetails e ethEscrowParams = Inr ethEscrow"
    "getEscrowDetails e erc20EscrowParams = Inr erc20Escrow"
    "config' r = config e [ethEscrow, erc20Escrow]"
    by (auto elim!: zora_Inr)
  then have c: "config' r = config e [ethEscrowParams, erc20EscrowParams]"
    by (auto dest: getEscrowDetails_Inr)
  show e: "getProp (config' r) ''escrows'' = Some (Arr [ethEscrowParams, erc20EscrowParams])"
    unfolding c by (simp add: config_def obj_simps)
  show "tokenSet (getProp ethEscrowParams ''tokens'')"
    by (simp add: escrowParams_props)
  show "allTokens (getProp erc20EscrowParams ''tokens'')"
    by (simp add: escrowParams_props)
  show "list_all tokensOk (elems (getProp (config' r) ''escrows''))"
    unfolding e by (simp add: tokensOk_def escrowParams_props)
qed

lemma getEscrowDetails_sample:
  "getEscrowDetails sampleEnv erc20EscrowParams = Inr erc20EscrowParams"
  by (simp add: getEscrowDetails_def escrowParams_props EthereumAddress_def UnixTime_def
      sampleEnv_def)

text \<open>The second escrow, in the sample environment.\<close>

theorem escrow_tokens_witness:
  "getEscrowDetails sampleEnv erc20EscrowParams = Inr erc20EscrowParams \<and>
   allTokens (getProp erc20EscrowParams ''tokens'') \<and>
   zora sampleEnv = Inr (projr (zora sampleEnv)) \<and>
   list_all tokensOk (elems (getProp (config' (projr (zora sampleEnv))) ''escrows''))"
proof -
  have a: "allTokens (getProp erc20EscrowParams ''tokens'')"
    by (simp add: escrowParams_props)
  from escrow_tokens [of sampleEnv erc20EscrowParams erc20EscrowParams "projr (zora sampleEnv)"]
    getEscrowDetails_sample a zora_sample
  show ?thesis by blast
qed

text \<open>
  Claim C8. In an object literal the last entry wins: a key of a trailing spread takes the
  value of the spread, and every other key keeps the value it had. In both escrow
  objects the trailing spread of \<^verbatim>\<open>upgradesProxy\<close> gives \<^verbatim>\<open>upgradableBy\<close> the list with
  \<^verbatim>\<open>ProxyAdmin\<close> and \<^verbatim>\<open>upgradeDelay\<close> the text \<^verbatim>\<open>No delay\<close>, and the fields written before
  it (\<^verbatim>\<open>address\<close>, \<^verbatim>\<open>sinceTimestamp\<close>, \<^verbatim>\<open>tokens\<close>, \<^verbatim>\<open>description\<close>) keep their values.
\<close>

theorem escrow_params_spread:
  "getProp (objLit (es @ [Spread qs])) k =
     (case map_of (rev qs) k of Some v \<Rightarrow> Some v | None \<Rightarrow> getProp (objLit es) k) \<and>
   getProp (objLit (es @ [Field k' v'])) k =
     (if k = k' then Some v' else getProp (objLit es) k) \<and>
   getProp ethEscrowParams ''upgradableBy'' = Some (Arr [Str ''ProxyAdmin'']) \<and>
   getProp ethEscrowParams ''upgradeDelay'' = Some (Str ''No delay'') \<and>
   getProp ethEscrowParams ''address'' =
     Some (EthereumAddress ''0x1a0ad011913A150f69f6A19DF447A0CfD9551054'') \<and>
   getProp ethEscrowParams ''sinceTimestamp'' = Some (UnixTime 1686607200) \<and>
   getProp ethEscrowParams ''tokens'' = Some (Arr [Str ''ETH'']) \<and>
   getProp ethEscrowParams ''description'' =
     Some (Str ''Main entry point for users depositing ETH.'') \<and>
   getProp erc20EscrowParams ''upgradableBy'' = Some (Arr [Str ''ProxyAdmin'']) \<and>
   getProp erc20EscrowParams ''upgradeDelay'' = Some (Str ''No delay'') \<and>
   getProp erc20EscrowParams ''address'' =
     Some (EthereumAddress ''0x3e2Ea9B92B7E48A52296fD261dc26fd995284631'') \<and>
   getProp erc20EscrowParams ''sinceTimestamp'' = Some (UnixTime 1686607200) \<and>
   getProp erc20EscrowParams ''tokens'' = Some (Str ''*'') \<and>
   getProp erc20EscrowParams ''description'' =
     Some (Str ''Main entry point for users depositing ERC20 token that do not require custom gateway.'')"
proof -
  have "getProp (objLit (es @ [Spread qs])) k =
     (case map_of (rev qs) k of Some v \<Rightarrow> Some v | None \<Rightarrow> getProp (objLit es) k)"
    by (cases "map_of (rev qs) k") (simp_all add: objLit_def map_of_spread)
  moreover have "getProp (objLit (es @ [Field k' v'])) k =
     (if k = k' then Some v' else getProp (objLit es) k)"
    by (simp add: objLit_def map_of_setProp)
  ultimately show ?thesis by (simp only: escrowParams_props simp_thms)
qed

lemma technologyReferences_technology:
  "technologyReferences (technology e) =
     [reference
        ''L2OutputOracle.sol#L141 - Etherscan source code, deleteL2Outputs function''
        ''https://etherscan.io/address/0x9eedde6b4D3263b97209Ba860eDF3Fc6a8fB6a44#code#F1#L141'',
      reference
        ''Derivation: Batch submission - OP Stack specs''
        ''https://github.com/ourzora/optimism/blob/develop/specs/derivation.md#batch-submission'',
      reference
        ''BatchInbox - Etherscan address''
        ''https://etherscan.io/address/0x6f54ca6f6ede96662024ffd61bfd18f3f4e34dff'',
      reference
        ''OptimismPortal.sol#L434 - Etherscan source code, depositTransaction function''
        ''https://etherscan.io/address/0x43260ee547c3965bb2a0174763bb8fecc650ba4a#code#F1#L434'',
      reference
        ''L2OutputOracle.sol#L30 - Etherscan source code, CHALLENGER address''
        ''https://etherscan.io/address/0x9eedde6b4D3263b97209Ba860eDF3Fc6a8fB6a44#code#F1#L30'',
      reference
        ''L2OutputOracle.sol#L35 - Etherscan source code, PROPOSER address''
        ''https://etherscan.io/address/0x9eedde6b4D3263b97209Ba860eDF3Fc6a8fB6a44#code#F1#L35'',
      reference
        ''Decentralizing the sequencer - OP Stack docs''
        ''https://community.optimism.io/docs/protocol/#decentralizing-the-sequencer'',
      reference
        ''Sequencing Window - OP Stack specs''
        ''https://github.com/ourzora/optimism/blob/51eeb76efeb32b3df3e978f311188aa29f5e3e94/specs/glossary.md#sequencing-window'',
      reference
        ''OptimismPortal.sol#L434 - Etherscan source code, depositTransaction function''
        ''https://etherscan.io/address/0x43260ee547c3965bb2a0174763bb8fecc650ba4a#code#F1#L434'',
      reference
        ''OptimismPortal.sol#L242 - Etherscan source code, proveWithdrawalTransaction function''
        ''https://etherscan.io/address/0x43260ee547c3965bb2a0174763bb8fecc650ba4a#code#F1#L242'',
      reference
        ''OptimismPortal.sol#L325 - Etherscan source code, finalizeWithdrawalTransaction function''
        ''https://etherscan.io/address/0x43260ee547c3965bb2a0174763bb8fecc650ba4a#code#F1#L325'',
      reference
        ''L2OutputOracle.sol#L185 - Etherscan source code, PROPOSER check''
        ''https://etherscan.io/address/0x9eedde6b4D3263b97209Ba860eDF3Fc6a8fB6a44#code#F1#L185'',
      reference
        ''Forced withdrawal from an OP Stack blockchain''
        ''https://stack.optimism.io/docs/security/forced-withdrawal/'',
      reference
        ''Introducing EVM Equivalence''
        ''https://medium.com/ethereum-optimism/introducing-evm-equivalence-5c2021deb306'']"
  by (simp add: technologyReferences_def technologySections_def technology_def obj_simps)

lemma validReference_reference:
  "validReference (reference t h) \<longleftrightarrow> t \<noteq> [] \<and> h \<noteq> []"
  by (simp add: validReference_def reference_def obj_simps)

lemma getProp_withSources:
  "getProp (withSources entry contract url) ''sources'' =
     Some (Arr [objLit [Field ''contract'' (Str contract), Field ''references'' (Arr [Str url])]])"
  by (simp add: withSources_def obj_simps)

lemma validSource_source:
  "validSource (objLit [Field ''contract'' (Str contract), Field ''references'' (Arr [Str url])])
     \<longleftrightarrow> contract \<noteq> [] \<and> url \<noteq> []"
  by (simp add: validSource_def obj_simps)

lemma riskSources_eq:
  "riskSources rv =
     elems (getPath rv [''dataAvailability'', ''sources'']) @
     elems (getPath rv [''exitWindow'', ''sources'']) @
     elems (getPath rv [''sequencerFailure'', ''sources'']) @
     elems (getPath rv [''proposerFailure'', ''sources''])"
  by (simp add: riskSources_def sourcedDimensions_def)

lemma riskSources_riskViewEntries:
  "list_all validSource (riskSources (riskViewEntries e cp))"
  "length (riskSources (riskViewEntries e cp)) = 4"
  by (simp_all add: riskSources_eq riskViewEntries_props getProp_withSources
      validSource_source)

lemma riskSources_keeps:
  assumes "keepsRiskDimensions f"
  shows "riskSources (f rv) = riskSources rv"
proof -
  have "getProp (f rv) k = getProp rv k" if "k \<in> set sourcedDimensions" for k
    using that by (intro keepsRiskDimensionsD [OF assms])
      (auto simp: sourcedDimensions_def riskDimensions_def)
  then have "getPath (f rv) [k, ''sources''] = getPath rv [k, ''sources'']"
    if "k \<in> set sourcedDimensions" for k
    using that by simp
  then show ?thesis unfolding riskSources_def by (simp cong: map_cong)
qed

text \<open>
  Claim C9. In a built record each of the fourteen references of the technology sections
  (the four named sections with a table entry or without, the two exit mechanisms, and
  \<^verbatim>\<open>smartContracts\<close>) has a non-empty text and a non-empty href, and each of the four
  sources that the file attaches to risk entries has a non-empty contract name and a
  non-empty list of non-empty URLs.
\<close>

theorem references_non_empty:
  assumes "zora e = Inr r"
  shows "list_all validReference (technologyReferences (technology' r)) \<and>
    length (technologyReferences (technology' r)) = 14 \<and>
    (\<exists>cp. riskView' r = makeBridgeCompatible e (riskViewEntries e cp) \<and>
       list_all validSource (riskSources (riskViewEntries e cp)) \<and>
       length (riskSources (riskViewEntries e cp)) = 4) \<and>
    (keepsRiskDimensions (makeBridgeCompatible e) \<longrightarrow>
       list_all validSource (riskSources (riskView' r)) \<and>
       length (riskSources (riskView' r)) = 4)"
proof -
  from assms obtain cp where t: "technology' r = technology e"
    and rv: "riskView' r = makeBridgeCompatible e (riskViewEntries e cp)"
    by (auto elim!: zora_Inr simp: riskView_def)
  have 1: "list_all validReference (technologyReferences (technology' r))"
    unfolding t technologyReferences_technology by (simp add: validReference_reference)
  have 2: "length (technologyReferences (technology' r)) = 14"
    unfolding t technologyReferences_technology by simp
  have 3: "riskSources (riskView' r) = riskSources (riskViewEntries e cp)"
    if "keepsRiskDimensions (makeBridgeCompatible e)"
    unfolding rv using that by (rule riskSources_keeps)
  from 1 2 3 rv riskSources_riskViewEntries [of e cp] show ?thesis by auto
qed

text \<open>The references and the sources of the record built in the sample environment.\<close>

theorem references_non_empty_witness:
  "zora sampleEnv = Inr (projr (zora sampleEnv)) \<and>
   keepsRiskDimensions (makeBridgeCompatible sampleEnv) \<and>
   list_all validReference (technologyReferences (technology' (projr (zora sampleEnv)))) \<and>
   list_all validSource (riskSources (riskView' (projr (zora sampleEnv))))"
proof -
  have k: "keepsRiskDimensions (makeBridgeCompatible sampleEnv)"
    using keepsRiskDimensions_sample by (simp add: sampleEnv_def)
  from references_non_empty [OF zora_sample] k zora_sample
  show ?thesis by blast
qed

end
